theory Spec2Isabelle
  imports Complex_Main "HOL-Library.Sublist"
begin

section \<open>Python library operations used by run\_experiments.py\<close>

text \<open>
  \<open>str.replace(old, new)\<close>: scanning from the left, every non-overlapping occurrence of
  \<open>old\<close> is replaced by \<open>new\<close>. For an empty \<open>old\<close> Python inserts \<open>new\<close> before every
  character and at the end.
\<close>

function replace :: "string \<Rightarrow> string \<Rightarrow> string \<Rightarrow> string" where
  "replace old new s =
     (if old = [] then new @ concat (map (\<lambda>c. c # new) s)
      else if s = [] then []
      else if prefix old s then new @ replace old new (drop (length old) s)
      else hd s # replace old new (tl s))"
  by pat_completeness auto
termination
  by (relation "measure (\<lambda>(old, new, s). length s)") (auto simp: neq_Nil_conv)

text \<open>\<open>sep.join(parts)\<close>.\<close>

fun join :: "string \<Rightarrow> string list \<Rightarrow> string" where
  "join sep [] = []"
| "join sep [p] = p"
| "join sep (p # q # ps) = p @ sep @ join sep (q # ps)"

text \<open>\<open>str(n)\<close> of a Python integer, as the f-string \<open>f"thinking{thinking_budget}"\<close> formats it.\<close>

definition digit_char :: "nat \<Rightarrow> char" where
  "digit_char d = char_of (48 + d)"

fun str_nat :: "nat \<Rightarrow> string" where
  "str_nat n = (if n < 10 then [digit_char n] else str_nat (n div 10) @ [digit_char (n mod 10)])"

definition str_int :: "int \<Rightarrow> string" where
  "str_int i = (if i < 0 then CHR ''-'' # str_nat (nat (- i)) else str_nat (nat i))"

section \<open>Output file names\<close>

definition get_model_short_name :: "string \<Rightarrow> string" where
  "get_model_short_name model_name = replace '':'' ''-'' (replace ''models/'' [] model_name)"

definition build_output_filename :: "string \<Rightarrow> string \<Rightarrow> string \<Rightarrow> int \<Rightarrow> string \<Rightarrow> string" where
  "build_output_filename image_name model_name strategy thinking_budget suffix_arg =
     (let image_base = replace ''.jpg'' [] image_name;
          model_short = get_model_short_name model_name;
          thinking_str = ''thinking'' @ str_int thinking_budget;
          parts = [image_base, model_short, strategy, thinking_str];
          filename = join ''__'' parts @ suffix_arg @ ''.json''
      in filename)"

section \<open>Data model\<close>

text \<open>
  The exceptions the script can meet. All of them are subclasses of Python's \<open>Exception\<close>,
  the class named by the handler of \<open>run_experiment\<close>.
\<close>

datatype error =
    IndexError
  | KeyError string
  | FileNotFoundError string
  | JSONDecodeError
  | RecursionError
  | OSError string
  | ServiceError string

text \<open>
  A JSON value as \<open>json.loads\<close> builds it and \<open>json.dump\<close> writes it. The type \<open>'f\<close> stands
  for Python's floats, which the script never inspects.
\<close>

datatype 'f json =
    JNull
  | JBool bool
  | JInt int
  | JFloat 'f
  | JString string
  | JArray "'f json list"
  | JObject "(string \<times> 'f json) list"

text \<open>Conversation turns: \<open>Part\<close>, \<open>FileData\<close> and \<open>Content\<close> of the client library.\<close>

record file_data =
  mime_type :: string
  file_uri :: string

datatype part = FilePart file_data | TextPart string

record content =
  role :: string
  parts :: "part list"

datatype thinking_config = ThinkingConfig (thinking_budget_of: int)

record generate_content_config =
  response_mime_type :: string
  temperature :: real
  thinking_config :: "thinking_config option"

text \<open>The keyword arguments of one \<open>client.models.generate_content\<close> call.\<close>

record request =
  req_model :: string
  req_config :: generate_content_config
  req_contents :: "content list"

record usage_metadata =
  candidates_token_count :: int
  thoughts_token_count :: int
  prompt_token_count :: int
  total_token_count :: int

record response =
  response_text :: "string option"
  response_usage :: usage_metadata

text \<open>The two output directories, \<open>results/predictions_test2\<close> and \<open>results/metadata2\<close>.\<close>

datatype directory = PREDICTIONS_DIR | METADATA_DIR

text \<open>
  What a file holds after \<open>json.dump(obj, f, indent=4)\<close> into it: the whole output for \<open>obj\<close>,
  or, when the dump raised, some initial part of that output (possibly nothing).
\<close>

datatype 'f file_content = Dumped "'f json" | Truncated "'f json"

text \<open>
  What the script reads and calls but does not define: the JSON library, the iteration order
  of a Python set, the environment variable, the data directory, the file system under the
  output directories and the remote service.
  \<^item> \<open>json_loads\<close> is \<open>json.loads\<close> (and \<open>json.load\<close> on a file's text); \<open>None\<close> is a parse error;
  \<^item> \<open>json_dumps\<close> is \<open>json.dumps(\<dots>, indent=4)\<close>;
  \<^item> \<open>list_of_set s\<close> is \<open>list(s)\<close>: the members of \<open>s\<close> in the set's iteration order;
  \<^item> \<open>prompt_txt\<close> is the text of \<open>data/prompt.txt\<close>, \<open>ground_truth_dir\<close> maps a file name under
    \<open>data/ground_truth\<close> to its text; \<open>None\<close> is a missing file;
  \<^item> \<open>open_w d name\<close> is \<open>open(d / name, "w")\<close>: it raises (for instance when \<open>name\<close> leads into a
    directory that does not exist), or it creates or empties a file and yields it; a file is
    named here by its resolved path, so that two names may yield the same file;
  \<^item> \<open>json_dump f obj\<close> is the body of the \<open>with\<close> block, \<open>json.dump(obj, f, indent=4)\<close> and the
    closing of \<open>f\<close>: \<open>None\<close> when the whole output is written, an exception when it is raised
    after a part of the output;
  \<^item> \<open>files_upload\<close> is \<open>client.files.upload\<close> on an image under \<open>data/images\<close>;
  \<^item> \<open>generate_content k r\<close> is the outcome of the service when \<open>r\<close> is the request that
    follows \<open>k\<close> earlier ones (the service need not answer equal requests equally).
\<close>

record 'f env =
  json_loads :: "string \<Rightarrow> 'f json option"
  json_dumps :: "'f json \<Rightarrow> string"
  list_of_set :: "nat set \<Rightarrow> nat list"
  gemini_api_key :: "string option"
  prompt_txt :: "string option"
  ground_truth_dir :: "string \<rightharpoonup> string"
  open_w :: "directory \<Rightarrow> string \<Rightarrow> error + string"
  json_dump :: "string \<Rightarrow> 'f json \<Rightarrow> error option"
  files_upload :: "string \<Rightarrow> error + file_data"
  generate_content :: "nat \<Rightarrow> request \<Rightarrow> error + response"

text \<open>The lines the script prints.\<close>

datatype output_line =
    UploadingImages
  | Uploaded string
  | ModelBanner string
  | TargetLine string
  | Running string int string
  | Saved string
  | EmptyResponse
  | ErrorLine error
  | ExperimentsComplete

text \<open>
  What the script changes: the files it writes (the resolved path of a file mapped to what the
  file holds), the requests sent to the service, and the console.
\<close>

record 'f world =
  files :: "string \<rightharpoonup> 'f file_content"
  requests :: "request list"
  stdout :: "output_line list"

definition print :: "output_line \<Rightarrow> 'f world \<Rightarrow> 'f world" where
  "print l w = w\<lparr>stdout := stdout w @ [l]\<rparr>"

definition IMAGE_FILES :: "string list" where
  "IMAGE_FILES =
     [''NL-UtHUA_A376076_000033_l.jpg'',
      ''NL-UtHUA_A376076_000033_r.jpg'',
      ''NL-UtHUA_A376079_000005_l.jpg'',
      ''NL-UtHUA_A376079_000005_r.jpg'']"

definition MODELS :: "string list" where
  "MODELS = [''models/gemini-2.5-flash-lite'']"

definition THINKING_BUDGETS :: "int list" where
  "THINKING_BUDGETS = [0, 2000]"

text \<open>\<open>xs[i]\<close> for a non-negative index and \<open>d[k]\<close> for a dictionary.\<close>

definition subscript :: "'a list \<Rightarrow> nat \<Rightarrow> error + 'a" where
  "subscript xs i = (if i < length xs then Inr (xs ! i) else Inl IndexError)"

definition lookup :: "(string \<rightharpoonup> 'v) \<Rightarrow> string \<Rightarrow> error + 'v" where
  "lookup d k = (case d k of None \<Rightarrow> Inl (KeyError k) | Some v \<Rightarrow> Inr v)"

section \<open>Loading the inputs\<close>

definition upload_image :: "'f env \<Rightarrow> string \<Rightarrow> 'f world \<Rightarrow> (error + part) \<times> 'f world" where
  "upload_image e image_name w =
     (case files_upload e image_name of
        Inl err \<Rightarrow> (Inl err, w)
      | Inr file \<Rightarrow>
          (Inr (FilePart \<lparr>mime_type = mime_type file, file_uri = file_uri file\<rparr>),
           print (Uploaded image_name) w))"

definition load_ground_truth :: "'f env \<Rightarrow> string \<Rightarrow> error + 'f json" where
  "load_ground_truth e image_name =
     (let gt_path = replace ''.jpg'' ''.json'' image_name
      in case ground_truth_dir e gt_path of
           None \<Rightarrow> Inl (FileNotFoundError gt_path)
         | Some f \<Rightarrow> (case json_loads e f of None \<Rightarrow> Inl JSONDecodeError | Some j \<Rightarrow> Inr j))"

definition load_prompt :: "'f env \<Rightarrow> error + string" where
  "load_prompt e =
     (case prompt_txt e of
        None \<Rightarrow> Inl (FileNotFoundError ''prompt.txt'')
      | Some prompt \<Rightarrow> Inr (''Perform the following task using step-by-step reasoning.'' @ prompt))"

section \<open>The experiment runner\<close>

text \<open>The request that \<open>run_experiment\<close> sends.\<close>

definition generation_request :: "string \<Rightarrow> content list \<Rightarrow> int \<Rightarrow> request" where
  "generation_request model_name messages thinking_budget =
     (let thinking_config0 =
            (if thinking_budget > 0 then Some (ThinkingConfig thinking_budget) else None)
      in \<lparr>req_model = model_name,
          req_config = \<lparr>response_mime_type = ''application/json'',
                        temperature = 0.9,
                        thinking_config = thinking_config0\<rparr>,
          req_contents = messages\<rparr>)"

definition usage_record :: "usage_metadata \<Rightarrow> 'f json" where
  "usage_record u =
     JObject [(''candidates_token_count'', JInt (candidates_token_count u)),
              (''thoughts_token_count'', JInt (thoughts_token_count u)),
              (''prompt_token_count'', JInt (prompt_token_count u)),
              (''total_token_count'', JInt (total_token_count u))]"

text \<open>
  The body of the \<open>try\<close> block. The first component of the result is the exception that
  leaves the block, if any; the second is the state reached by then. The two files are
  written one after the other, each by \<open>open\<close> and \<open>json.dump\<close>, and each of the four steps may
  raise.
\<close>

definition run_experiment_try ::
  "'f env \<Rightarrow> string \<Rightarrow> content list \<Rightarrow> string \<Rightarrow> string \<Rightarrow> int \<Rightarrow> 'f world \<Rightarrow> error option \<times> 'f world" where
  "run_experiment_try e model_name messages image_name strategy thinking_budget w =
     (let w1 = print (Running strategy thinking_budget image_name) w;
          r = generation_request model_name messages thinking_budget;
          w2 = w1\<lparr>requests := requests w1 @ [r]\<rparr>
      in case generate_content e (length (requests w1)) r of
           Inl err \<Rightarrow> (Some err, w2)
         | Inr resp \<Rightarrow>
             (let metadata = usage_record (response_usage resp)
              in case response_text resp of
                   None \<Rightarrow> (None, print EmptyResponse w2)
                 | Some txt \<Rightarrow>
                     if txt = [] then (None, print EmptyResponse w2)
                     else (case json_loads e txt of
                             None \<Rightarrow> (Some JSONDecodeError, w2)
                           | Some response_json \<Rightarrow>
                               (let pred_filename =
                                      build_output_filename image_name model_name strategy thinking_budget [];
                                    meta_filename =
                                      build_output_filename image_name model_name strategy thinking_budget []
                                in case open_w e PREDICTIONS_DIR pred_filename of
                                     Inl err \<Rightarrow> (Some err, w2)
                                   | Inr pred_file \<Rightarrow>
                                       (case json_dump e pred_file response_json of
                                          Some err \<Rightarrow>
                                            (Some err,
                                             w2\<lparr>files := (files w2)(pred_file \<mapsto> Truncated response_json)\<rparr>)
                                        | None \<Rightarrow>
                                            (let w3 = w2\<lparr>files := (files w2)(pred_file \<mapsto> Dumped response_json)\<rparr>
                                             in case open_w e METADATA_DIR meta_filename of
                                                  Inl err \<Rightarrow> (Some err, w3)
                                                | Inr meta_file \<Rightarrow>
                                                    (case json_dump e meta_file metadata of
                                                       Some err \<Rightarrow>
                                                         (Some err,
                                                          w3\<lparr>files := (files w3)(meta_file \<mapsto> Truncated metadata)\<rparr>)
                                                     | None \<Rightarrow>
                                                         (None,
                                                          print (Saved pred_filename)
                                                            (w3\<lparr>files := (files w3)(meta_file \<mapsto> Dumped metadata)\<rparr>)))))))))"

text \<open>
  \<open>run_experiment\<close>: the \<open>try\<close> block under its handler \<open>except Exception\<close>, which prints the
  error. The first component of the result is the exception that leaves \<open>run_experiment\<close>.
\<close>

definition run_experiment ::
  "'f env \<Rightarrow> string \<Rightarrow> content list \<Rightarrow> string \<Rightarrow> string \<Rightarrow> int \<Rightarrow> 'f world \<Rightarrow> error option \<times> 'f world" where
  "run_experiment e model_name messages image_name strategy thinking_budget w =
     (case run_experiment_try e model_name messages image_name strategy thinking_budget w of
        (Some err, w') \<Rightarrow> (None, print (ErrorLine err) w')
      | (None, w') \<Rightarrow> (None, w'))"

section \<open>Combinations and the held-out target\<close>

text \<open>
  \<open>itertools.combinations(xs, r)\<close>: the \<open>r\<close>-element subsequences of \<open>xs\<close>, in lexicographic
  order of their positions.
\<close>

fun combinations :: "'a list \<Rightarrow> nat \<Rightarrow> 'a list list" where
  "combinations xs 0 = [[]]"
| "combinations [] (Suc r) = []"
| "combinations (x # xs) (Suc r) = map ((#) x) (combinations xs r) @ combinations xs (Suc r)"

text \<open>
  \<open>list(set(range(n)) - set(example_indices))[0]\<close>. The order in which Python lists the
  members of a set is not fixed by the language; \<open>list_of\<close> is that order.
\<close>

definition target_index :: "(nat set \<Rightarrow> nat list) \<Rightarrow> nat \<Rightarrow> nat list \<Rightarrow> error + nat" where
  "target_index list_of n example_indices =
     subscript (list_of (set [0..<n] - set example_indices)) 0"

text \<open>\<open>list_of\<close> lists every finite set: each member once and nothing else.\<close>

definition lists_sets :: "(nat set \<Rightarrow> nat list) \<Rightarrow> bool" where
  "lists_sets list_of \<longleftrightarrow> (\<forall>s. finite s \<longrightarrow> set (list_of s) = s \<and> distinct (list_of s))"

section \<open>The message builder\<close>

definition user_turn :: "part \<Rightarrow> part \<Rightarrow> content" where
  "user_turn image_part prompt_part = \<lparr>role = ''user'', parts = [image_part, prompt_part]\<rparr>"

definition model_turn :: "part \<Rightarrow> content" where
  "model_turn gt_part = \<lparr>role = ''model'', parts = [gt_part]\<rparr>"

text \<open>The loop over \<open>example_indices\<close> that extends \<open>messages_fewshot\<close> by two turns each time.\<close>

fun fewshot_examples ::
  "'f env \<Rightarrow> (string \<rightharpoonup> part) \<Rightarrow> part \<Rightarrow> content list \<Rightarrow> nat list \<Rightarrow> error + content list" where
  "fewshot_examples e image_parts prompt_part messages_fewshot [] = Inr messages_fewshot"
| "fewshot_examples e image_parts prompt_part messages_fewshot (idx # rest) =
     (case subscript IMAGE_FILES idx of
        Inl err \<Rightarrow> Inl err
      | Inr example_image \<Rightarrow>
          (case load_ground_truth e example_image of
             Inl err \<Rightarrow> Inl err
           | Inr gt_response \<Rightarrow>
               (let gt_part = TextPart (json_dumps e gt_response)
                in case lookup image_parts example_image of
                     Inl err \<Rightarrow> Inl err
                   | Inr image_part \<Rightarrow>
                       fewshot_examples e image_parts prompt_part
                         (messages_fewshot @ [user_turn image_part prompt_part, model_turn gt_part])
                         rest)))"

definition build_messages_fewshot ::
  "'f env \<Rightarrow> (string \<rightharpoonup> part) \<Rightarrow> part \<Rightarrow> nat list \<Rightarrow> string \<Rightarrow> error + content list" where
  "build_messages_fewshot e image_parts prompt_part example_indices target_image =
     (case fewshot_examples e image_parts prompt_part [] example_indices of
        Inl err \<Rightarrow> Inl err
      | Inr messages_fewshot \<Rightarrow>
          (case lookup image_parts target_image of
             Inl err \<Rightarrow> Inl err
           | Inr image_part \<Rightarrow> Inr (messages_fewshot @ [user_turn image_part prompt_part])))"

definition build_messages_zeroshot ::
  "(string \<rightharpoonup> part) \<Rightarrow> part \<Rightarrow> string \<Rightarrow> error + content list" where
  "build_messages_zeroshot image_parts prompt_part target_image =
     (case lookup image_parts target_image of
        Inl err \<Rightarrow> Inl err
      | Inr image_part \<Rightarrow> Inr [user_turn image_part prompt_part])"

section \<open>The script\<close>

text \<open>A \<open>for\<close> loop whose body may raise: the first exception ends the loop.\<close>

fun for_each :: "('a \<Rightarrow> 'w \<Rightarrow> error option \<times> 'w) \<Rightarrow> 'a list \<Rightarrow> 'w \<Rightarrow> error option \<times> 'w" where
  "for_each body [] w = (None, w)"
| "for_each body (x # xs) w =
     (case body x w of
        (Some err, w') \<Rightarrow> (Some err, w')
      | (None, w') \<Rightarrow> for_each body xs w')"

text \<open>The loop that uploads every image and fills the dictionary \<open>image_parts\<close>.\<close>

fun upload_all ::
  "'f env \<Rightarrow> string list \<Rightarrow> (string \<rightharpoonup> part) \<Rightarrow> 'f world \<Rightarrow> (error + (string \<rightharpoonup> part)) \<times> 'f world" where
  "upload_all e [] image_parts w = (Inr image_parts, w)"
| "upload_all e (image_file # rest) image_parts w =
     (case upload_image e image_file w of
        (Inl err, w') \<Rightarrow> (Inl err, w')
      | (Inr p, w') \<Rightarrow> upload_all e rest (image_parts(image_file \<mapsto> p)) w')"

text \<open>The body of the loop over \<open>THINKING_BUDGETS\<close>: the few-shot and the zero-shot experiment.\<close>

definition budget_body ::
  "'f env \<Rightarrow> (string \<rightharpoonup> part) \<Rightarrow> part \<Rightarrow> string \<Rightarrow> nat list \<Rightarrow> string \<Rightarrow> int \<Rightarrow> 'f world
     \<Rightarrow> error option \<times> 'f world" where
  "budget_body e image_parts prompt_part model_name example_indices target_image thinking_budget w =
     (case build_messages_fewshot e image_parts prompt_part example_indices target_image of
        Inl err \<Rightarrow> (Some err, w)
      | Inr messages_fewshot \<Rightarrow>
          (case run_experiment e model_name messages_fewshot target_image ''fewshot'' thinking_budget w of
             (Some err, w1) \<Rightarrow> (Some err, w1)
           | (None, w1) \<Rightarrow>
               (case build_messages_zeroshot image_parts prompt_part target_image of
                  Inl err \<Rightarrow> (Some err, w1)
                | Inr messages_zeroshot \<Rightarrow>
                    run_experiment e model_name messages_zeroshot target_image ''zeroshot''
                      thinking_budget w1)))"

text \<open>The body of the loop over \<open>combinations\<close>.\<close>

definition combination_body ::
  "'f env \<Rightarrow> (string \<rightharpoonup> part) \<Rightarrow> part \<Rightarrow> string \<Rightarrow> nat list \<Rightarrow> 'f world \<Rightarrow> error option \<times> 'f world" where
  "combination_body e image_parts prompt_part model_name combination w =
     (let example_indices = combination
      in case target_index (list_of_set e) (length IMAGE_FILES) example_indices of
           Inl err \<Rightarrow> (Some err, w)
         | Inr target_idx \<Rightarrow>
             (case subscript IMAGE_FILES target_idx of
                Inl err \<Rightarrow> (Some err, w)
              | Inr target_image \<Rightarrow>
                  for_each
                    (budget_body e image_parts prompt_part model_name example_indices target_image)
                    THINKING_BUDGETS
                    (print (TargetLine target_image) w)))"

text \<open>The body of the loop over \<open>MODELS\<close>.\<close>

definition model_body ::
  "'f env \<Rightarrow> (string \<rightharpoonup> part) \<Rightarrow> part \<Rightarrow> nat list list \<Rightarrow> string \<Rightarrow> 'f world \<Rightarrow> error option \<times> 'f world" where
  "model_body e image_parts prompt_part combs model_name w =
     for_each (combination_body e image_parts prompt_part model_name) combs
       (print (ModelBanner model_name) w)"

text \<open>
  The module's top-level statements, from the creation of the client to the closing banner.
  An exception that reaches the top level ends the script.
\<close>

definition script :: "'f env \<Rightarrow> 'f world \<Rightarrow> error option \<times> 'f world" where
  "script e w =
     (case gemini_api_key e of
        None \<Rightarrow> (Some (KeyError ''GEMINI_API_KEY''), w)
      | Some api_key \<Rightarrow>
          (case load_prompt e of
             Inl err \<Rightarrow> (Some err, w)
           | Inr prompt_text \<Rightarrow>
               (let prompt_part = TextPart prompt_text
                in case upload_all e IMAGE_FILES Map.empty (print UploadingImages w) of
                     (Inl err, w1) \<Rightarrow> (Some err, w1)
                   | (Inr image_parts, w1) \<Rightarrow>
                       (let combs = combinations [0..<length IMAGE_FILES] 3
                        in case for_each (model_body e image_parts prompt_part combs) MODELS w1 of
                             (Some err, w2) \<Rightarrow> (Some err, w2)
                           | (None, w2) \<Rightarrow> (None, print ExperimentsComplete w2)))))"

section \<open>Stub collaborators\<close>

text \<open>
  A stub JSON library that knows one document, and a stub environment whose generation
  service gives the same outcome to every request. They serve as concrete inputs.
\<close>

definition stub_loads :: "string \<Rightarrow> real json option" where
  \<open>stub_loads s = (if s = ''{"a":1}'' then Some (JObject [(''a'', JInt 1)]) else None)\<close>

definition stub_dumps :: "real json \<Rightarrow> string" where
  \<open>stub_dumps j =
     (if j = JObject [(''a'', JInt 1)]
      then ''{'' @ [CHR 0x0A] @ ''    "a": 1'' @ [CHR 0x0A] @ ''}''
      else ''null'')\<close>

text \<open>
  A stub file system: the two output directories exist and are empty of subdirectories, so
  that a name with a slash in it cannot be opened; every dump succeeds.
\<close>

fun dir_path :: "directory \<Rightarrow> string" where
  "dir_path PREDICTIONS_DIR = ''results/predictions_test2''"
| "dir_path METADATA_DIR = ''results/metadata2''"

definition stub_open :: "directory \<Rightarrow> string \<Rightarrow> error + string" where
  "stub_open d name =
     (if CHR ''/'' \<in> set name then Inl (FileNotFoundError (dir_path d @ ''/'' @ name))
      else Inr (dir_path d @ ''/'' @ name))"

definition stub_env :: "(error + response) \<Rightarrow> real env" where
  \<open>stub_env outcome =
     \<lparr>json_loads = stub_loads,
      json_dumps = stub_dumps,
      list_of_set = sorted_list_of_set,
      gemini_api_key = Some ''key'',
      prompt_txt = Some ''Extract the records.'',
      ground_truth_dir =
        (\<lambda>f. if f \<in> set (map (replace ''.jpg'' ''.json'') IMAGE_FILES) then Some ''{"a":1}'' else None),
      open_w = stub_open,
      json_dump = (\<lambda>f obj. None),
      files_upload = (\<lambda>f. Inr \<lparr>mime_type = ''image/jpeg'', file_uri = ''files/'' @ f\<rparr>),
      generate_content = (\<lambda>k r. outcome)\<rparr>\<close>

definition stub_response :: "string option \<Rightarrow> response" where
  "stub_response t =
     \<lparr>response_text = t,
      response_usage = \<lparr>candidates_token_count = 10, thoughts_token_count = 5,
                        prompt_token_count = 20, total_token_count = 35\<rparr>\<rparr>"

definition empty_world :: "real world" where
  "empty_world = \<lparr>files = Map.empty, requests = [], stdout = []\<rparr>"

section \<open>Turns that carry the prompt\<close>

text \<open>
  Every user turn of \<open>messages\<close> consists of two parts, the second of which is \<open>prompt_part\<close>;
  and the same for the turns of every request in a list.
\<close>

definition user_turns_use :: "part \<Rightarrow> content list \<Rightarrow> bool" where
  "user_turns_use prompt_part messages \<longleftrightarrow>
     list_all (\<lambda>t. role t = ''user'' \<longrightarrow> length (parts t) = 2 \<and> parts t ! 1 = prompt_part) messages"

definition requests_use :: "part \<Rightarrow> request list \<Rightarrow> bool" where
  "requests_use prompt_part rs \<longleftrightarrow> list_all (\<lambda>r. user_turns_use prompt_part (req_contents r)) rs"


declare replace.simps [simp del]
declare str_nat.simps [simp del]

section \<open>Facts about the library operations\<close>

lemma replace_nonempty_Nil: "old \<noteq> [] \<Longrightarrow> replace old new [] = []"
  by (simp add: replace.simps)

lemma replace_char_Cons:
  "replace [a] new (c # s) = (if c = a then new @ replace [a] new s else c # replace [a] new s)"
  by (subst replace.simps) simp

text \<open>Replacing a one-character string by another is a character-wise substitution.\<close>

lemma replace_char_map:
  "replace [a] [b] s = map (\<lambda>c. if c = a then b else c) s"
  by (induction s) (simp_all add: replace_nonempty_Nil replace_char_Cons)

section \<open>Output file names: the naming scheme\<close>

text \<open>
  Claim C3. \<open>build_output_filename("A.jpg", "models/gemini-2.5-flash-lite", "zeroshot", 0)\<close> is
  \<open>"A__gemini-2.5-flash-lite__zeroshot__thinking0.json"\<close>. For every image name, model name,
  strategy and budget, the file name is the image name with \<open>".jpg"\<close> removed, the model name
  with \<open>"models/"\<close> removed and then every colon turned into a hyphen, the strategy, and
  \<open>"thinking"\<close> followed by the budget in decimal, joined by \<open>"__"\<close> and ending in \<open>".json"\<close>.
\<close>

theorem build_output_filename_format:
  "build_output_filename ''A.jpg'' ''models/gemini-2.5-flash-lite'' ''zeroshot'' 0 []
     = ''A__gemini-2.5-flash-lite__zeroshot__thinking0.json''
   \<and> (\<forall>image_name model_name strategy thinking_budget.
        build_output_filename image_name model_name strategy thinking_budget []
          = replace ''.jpg'' [] image_name @ ''__''
            @ map (\<lambda>c. if c = CHR '':'' then CHR ''-'' else c) (replace ''models/'' [] model_name) @ ''__''
            @ strategy @ ''__''
            @ ''thinking'' @ str_int thinking_budget @ ''.json'')"
proof
  show "build_output_filename ''A.jpg'' ''models/gemini-2.5-flash-lite'' ''zeroshot'' 0 []
     = ''A__gemini-2.5-flash-lite__zeroshot__thinking0.json''"
    by code_simp
next
  show "\<forall>image_name model_name strategy thinking_budget.
        build_output_filename image_name model_name strategy thinking_budget []
          = replace ''.jpg'' [] image_name @ ''__''
            @ map (\<lambda>c. if c = CHR '':'' then CHR ''-'' else c) (replace ''models/'' [] model_name) @ ''__''
            @ strategy @ ''__''
            @ ''thinking'' @ str_int thinking_budget @ ''.json''"
    by (simp add: build_output_filename_def get_model_short_name_def replace_char_map)
qed

section \<open>The prompt\<close>

text \<open>
  Claim C10. Whatever \<open>prompt.txt\<close> contains, \<open>load_prompt\<close> returns the sentence
  \<open>"Perform the following task using step-by-step reasoning."\<close> followed by the contents of the
  file, which is never the contents of the file alone.
\<close>

theorem load_prompt_prefix:
  "prompt_txt e = Some p \<Longrightarrow>
     load_prompt e = Inr (''Perform the following task using step-by-step reasoning.'' @ p)
     \<and> load_prompt e \<noteq> Inr p"
  by (simp add: load_prompt_def)

theorem load_prompt_prefix_witness:
  "prompt_txt (stub_env (Inl IndexError)) = Some ''Extract the records.''
   \<and> load_prompt (stub_env (Inl IndexError))
       = Inr ''Perform the following task using step-by-step reasoning.Extract the records.''"
  using load_prompt_prefix [of "stub_env (Inl IndexError)" "''Extract the records.''"]
  by (simp add: stub_env_def)

section \<open>The experiment runner: outcomes\<close>


lemma run_experiment_try_empty:
  "generate_content e (length (requests w)) (generation_request m msgs b) = Inr resp \<Longrightarrow>
   response_text resp = None \<or> response_text resp = Some [] \<Longrightarrow>
   run_experiment_try e m msgs img s b w
     = (None, print EmptyResponse
               ((print (Running s b img) w)\<lparr>requests := requests w @ [generation_request m msgs b]\<rparr>))"
  by (auto simp add: run_experiment_try_def print_def Let_def)


lemma run_experiment_try_unopened:
  "generate_content e (length (requests w)) (generation_request m msgs b) = Inr resp \<Longrightarrow>
   response_text resp = Some txt \<Longrightarrow> txt \<noteq> [] \<Longrightarrow> json_loads e txt = Some j \<Longrightarrow>
   open_w e PREDICTIONS_DIR (build_output_filename img m s b []) = Inl err \<Longrightarrow>
   run_experiment_try e m msgs img s b w
     = (Some err,
        (print (Running s b img) w)\<lparr>requests := requests w @ [generation_request m msgs b]\<rparr>)"
  by (simp add: run_experiment_try_def print_def Let_def)

lemma run_experiment_try_truncated:
  "generate_content e (length (requests w)) (generation_request m msgs b) = Inr resp \<Longrightarrow>
   response_text resp = Some txt \<Longrightarrow> txt \<noteq> [] \<Longrightarrow> json_loads e txt = Some j \<Longrightarrow>
   open_w e PREDICTIONS_DIR (build_output_filename img m s b []) = Inr pred_file \<Longrightarrow>
   json_dump e pred_file j = Some err \<Longrightarrow>
   run_experiment_try e m msgs img s b w
     = (Some err,
        (print (Running s b img) w)
          \<lparr>requests := requests w @ [generation_request m msgs b],
           files := (files w)(pred_file \<mapsto> Truncated j)\<rparr>)"
  by (simp add: run_experiment_try_def print_def Let_def)

lemma run_experiment_try_saved:
  "generate_content e (length (requests w)) (generation_request m msgs b) = Inr resp \<Longrightarrow>
   response_text resp = Some txt \<Longrightarrow> txt \<noteq> [] \<Longrightarrow> json_loads e txt = Some j \<Longrightarrow>
   open_w e PREDICTIONS_DIR (build_output_filename img m s b []) = Inr pred_file \<Longrightarrow>
   json_dump e pred_file j = None \<Longrightarrow>
   open_w e METADATA_DIR (build_output_filename img m s b []) = Inr meta_file \<Longrightarrow>
   json_dump e meta_file (usage_record (response_usage resp)) = None \<Longrightarrow>
   run_experiment_try e m msgs img s b w
     = (None,
        print (Saved (build_output_filename img m s b []))
          ((print (Running s b img) w)
             \<lparr>requests := requests w @ [generation_request m msgs b],
              files := (files w)(pred_file \<mapsto> Dumped j,
                                 meta_file \<mapsto> Dumped (usage_record (response_usage resp)))\<rparr>))"
  by (simp add: run_experiment_try_def print_def Let_def)

lemma run_experiment_try_requests:
  "requests (snd (run_experiment_try e m msgs img s b w)) = requests w @ [generation_request m msgs b]"
  by (simp add: run_experiment_try_def print_def Let_def
      split: sum.splits option.splits)

lemma run_experiment_requests:
  "requests (snd (run_experiment e m msgs img s b w)) = requests w @ [generation_request m msgs b]"
  using run_experiment_try_requests [of e m msgs img s b w]
  by (cases "run_experiment_try e m msgs img s b w")
    (simp add: run_experiment_def print_def split: option.splits)

lemma run_experiment_no_raise: "fst (run_experiment e m msgs img s b w) = None"
  by (simp add: run_experiment_def split: prod.splits option.splits)

lemma example_filename:
  "build_output_filename ''A.jpg'' ''models/gemini-2.5-flash-lite'' ''zeroshot'' 0 []
     = ''A__gemini-2.5-flash-lite__zeroshot__thinking0.json''"
  by code_simp

lemma example_filename_in_subdirectory:
  "build_output_filename ''dir/A.jpg'' ''models/gemini-2.5-flash-lite'' ''zeroshot'' 0 []
     = ''dir/A__gemini-2.5-flash-lite__zeroshot__thinking0.json''"
  by code_simp

text \<open>
  Claim C4, as the code has it. Let the service answer with a non-empty text that parses as
  JSON, together with usage counts. If the prediction file and the metadata file, both named
  by \<open>build_output_filename\<close> from the image, the model, the strategy and the budget, can be
  opened for writing in their directories, are two different files, and both dumps run to
  their end, then \<open>run_experiment\<close> writes exactly these two files: the parsed value in the
  prediction file, and in the metadata file an object of exactly the four fields
  \<open>candidates_token_count\<close>, \<open>thoughts_token_count\<close>, \<open>prompt_token_count\<close> and \<open>total_token_count\<close>
  holding the usage counts of the response unchanged. No other file changes and no exception
  leaves the function.
\<close>

theorem run_experiment_writes_two_files:
  assumes "generate_content e (length (requests w)) (generation_request m msgs b) = Inr resp"
    and "response_text resp = Some txt" and "txt \<noteq> []" and "json_loads e txt = Some j"
    and "open_w e PREDICTIONS_DIR (build_output_filename img m s b []) = Inr pred_file"
    and "json_dump e pred_file j = None"
    and "open_w e METADATA_DIR (build_output_filename img m s b []) = Inr meta_file"
    and "json_dump e meta_file (usage_record (response_usage resp)) = None"
    and "pred_file \<noteq> meta_file"
  shows "fst (run_experiment e m msgs img s b w) = None
    \<and> files (snd (run_experiment e m msgs img s b w))
        = (files w)
            (pred_file \<mapsto> Dumped j,
             meta_file \<mapsto> Dumped
               (JObject [(''candidates_token_count'', JInt (candidates_token_count (response_usage resp))),
                         (''thoughts_token_count'', JInt (thoughts_token_count (response_usage resp))),
                         (''prompt_token_count'', JInt (prompt_token_count (response_usage resp))),
                         (''total_token_count'', JInt (total_token_count (response_usage resp)))]))
    \<and> files (snd (run_experiment e m msgs img s b w)) pred_file = Some (Dumped j)
    \<and> stdout (snd (run_experiment e m msgs img s b w))
        = stdout w @ [Running s b img, Saved (build_output_filename img m s b [])]"
  using run_experiment_try_saved [OF assms(1-8)] assms(9)
  by (simp add: run_experiment_def print_def usage_record_def)

theorem run_experiment_writes_two_files_witness:
  \<open>generate_content (stub_env (Inr (stub_response (Some ''{"a":1}'')))) (length (requests empty_world))
      (generation_request ''models/gemini-2.5-flash-lite'' [] 0)
     = Inr (stub_response (Some ''{"a":1}''))
   \<and> response_text (stub_response (Some ''{"a":1}'')) = Some ''{"a":1}''
   \<and> ''{"a":1}'' \<noteq> []
   \<and> json_loads (stub_env (Inr (stub_response (Some ''{"a":1}'')))) ''{"a":1}'' = Some (JObject [(''a'', JInt 1)])
   \<and> open_w (stub_env (Inr (stub_response (Some ''{"a":1}'')))) PREDICTIONS_DIR
        (build_output_filename ''A.jpg'' ''models/gemini-2.5-flash-lite'' ''zeroshot'' 0 [])
      = Inr ''results/predictions_test2/A__gemini-2.5-flash-lite__zeroshot__thinking0.json''
   \<and> open_w (stub_env (Inr (stub_response (Some ''{"a":1}'')))) METADATA_DIR
        (build_output_filename ''A.jpg'' ''models/gemini-2.5-flash-lite'' ''zeroshot'' 0 [])
      = Inr ''results/metadata2/A__gemini-2.5-flash-lite__zeroshot__thinking0.json''
   \<and> files (snd (run_experiment (stub_env (Inr (stub_response (Some ''{"a":1}''))))
        ''models/gemini-2.5-flash-lite'' [] ''A.jpg'' ''zeroshot'' 0 empty_world))
      = [''results/predictions_test2/A__gemini-2.5-flash-lite__zeroshot__thinking0.json''
           \<mapsto> Dumped (JObject [(''a'', JInt 1)]),
         ''results/metadata2/A__gemini-2.5-flash-lite__zeroshot__thinking0.json''
           \<mapsto> Dumped (JObject [(''candidates_token_count'', JInt 10), (''thoughts_token_count'', JInt 5),
                                 (''prompt_token_count'', JInt 20), (''total_token_count'', JInt 35)])]\<close>
proof -
  have g: \<open>generate_content (stub_env (Inr (stub_response (Some ''{"a":1}'')))) (length (requests empty_world))
      (generation_request ''models/gemini-2.5-flash-lite'' [] 0)
     = Inr (stub_response (Some ''{"a":1}''))\<close>
    by (simp add: stub_env_def)
  have t: \<open>response_text (stub_response (Some ''{"a":1}'')) = Some ''{"a":1}''\<close>
    by (simp add: stub_response_def)
  have n: \<open>''{"a":1}'' \<noteq> []\<close> by simp
  have l: \<open>json_loads (stub_env (Inr (stub_response (Some ''{"a":1}'')))) ''{"a":1}'' = Some (JObject [(''a'', JInt 1)])\<close>
    by (simp add: stub_env_def stub_loads_def)
  have o1: \<open>open_w (stub_env (Inr (stub_response (Some ''{"a":1}'')))) PREDICTIONS_DIR
        (build_output_filename ''A.jpg'' ''models/gemini-2.5-flash-lite'' ''zeroshot'' 0 [])
      = Inr ''results/predictions_test2/A__gemini-2.5-flash-lite__zeroshot__thinking0.json''\<close>
    by (simp add: example_filename stub_env_def stub_open_def)
  have d1: \<open>json_dump (stub_env (Inr (stub_response (Some ''{"a":1}''))))
        ''results/predictions_test2/A__gemini-2.5-flash-lite__zeroshot__thinking0.json''
        (JObject [(''a'', JInt 1)]) = None\<close>
    by (simp add: stub_env_def)
  have o2: \<open>open_w (stub_env (Inr (stub_response (Some ''{"a":1}'')))) METADATA_DIR
        (build_output_filename ''A.jpg'' ''models/gemini-2.5-flash-lite'' ''zeroshot'' 0 [])
      = Inr ''results/metadata2/A__gemini-2.5-flash-lite__zeroshot__thinking0.json''\<close>
    by (simp add: example_filename stub_env_def stub_open_def)
  have d2: \<open>json_dump (stub_env (Inr (stub_response (Some ''{"a":1}''))))
        ''results/metadata2/A__gemini-2.5-flash-lite__zeroshot__thinking0.json''
        (usage_record (response_usage (stub_response (Some ''{"a":1}'')))) = None\<close>
    by (simp add: stub_env_def)
  have ne: "''results/predictions_test2/A__gemini-2.5-flash-lite__zeroshot__thinking0.json''
      \<noteq> ''results/metadata2/A__gemini-2.5-flash-lite__zeroshot__thinking0.json''"
    by simp
  have f: \<open>files (snd (run_experiment (stub_env (Inr (stub_response (Some ''{"a":1}''))))
        ''models/gemini-2.5-flash-lite'' [] ''A.jpg'' ''zeroshot'' 0 empty_world))
      = [''results/predictions_test2/A__gemini-2.5-flash-lite__zeroshot__thinking0.json''
           \<mapsto> Dumped (JObject [(''a'', JInt 1)]),
         ''results/metadata2/A__gemini-2.5-flash-lite__zeroshot__thinking0.json''
           \<mapsto> Dumped (JObject [(''candidates_token_count'', JInt 10), (''thoughts_token_count'', JInt 5),
                                 (''prompt_token_count'', JInt 20), (''total_token_count'', JInt 35)])]\<close>
    using run_experiment_writes_two_files [OF g t n l o1 d1 o2 d2 ne]
    by (simp add: empty_world_def stub_response_def)
  show ?thesis
    by (rule conjI [OF g conjI [OF t conjI [OF n conjI [OF l conjI [OF o1 conjI [OF o2 f]]]]]])
qed

text \<open>
  The claim fails where a file cannot be written. With the image name \<open>dir/A.jpg\<close> the file
  name leads into a subdirectory of the predictions directory that does not exist: the
  service answers with valid JSON and usage counts, \<open>open\<close> raises inside the \<open>try\<close> block, the
  error is printed and no file is written.
\<close>

theorem run_experiment_unopened_counterexample:
  \<open>generate_content (stub_env (Inr (stub_response (Some ''{"a":1}'')))) (length (requests empty_world))
      (generation_request ''models/gemini-2.5-flash-lite'' [] 0)
     = Inr (stub_response (Some ''{"a":1}''))
   \<and> json_loads (stub_env (Inr (stub_response (Some ''{"a":1}'')))) ''{"a":1}'' = Some (JObject [(''a'', JInt 1)])
   \<and> dom (files (snd (run_experiment (stub_env (Inr (stub_response (Some ''{"a":1}''))))
        ''models/gemini-2.5-flash-lite'' [] ''dir/A.jpg'' ''zeroshot'' 0 empty_world))) = {}
   \<and> stdout (snd (run_experiment (stub_env (Inr (stub_response (Some ''{"a":1}''))))
        ''models/gemini-2.5-flash-lite'' [] ''dir/A.jpg'' ''zeroshot'' 0 empty_world))
      = [Running ''zeroshot'' 0 ''dir/A.jpg'',
         ErrorLine (FileNotFoundError
           ''results/predictions_test2/dir/A__gemini-2.5-flash-lite__zeroshot__thinking0.json'')]\<close>
proof -
  have g: \<open>generate_content (stub_env (Inr (stub_response (Some ''{"a":1}'')))) (length (requests empty_world))
      (generation_request ''models/gemini-2.5-flash-lite'' [] 0)
     = Inr (stub_response (Some ''{"a":1}''))\<close>
    by (simp add: stub_env_def)
  have t: \<open>response_text (stub_response (Some ''{"a":1}'')) = Some ''{"a":1}''\<close>
    by (simp add: stub_response_def)
  have n: \<open>''{"a":1}'' \<noteq> []\<close> by simp
  have l: \<open>json_loads (stub_env (Inr (stub_response (Some ''{"a":1}'')))) ''{"a":1}'' = Some (JObject [(''a'', JInt 1)])\<close>
    by (simp add: stub_env_def stub_loads_def)
  have o: \<open>open_w (stub_env (Inr (stub_response (Some ''{"a":1}'')))) PREDICTIONS_DIR
        (build_output_filename ''dir/A.jpg'' ''models/gemini-2.5-flash-lite'' ''zeroshot'' 0 [])
      = Inl (FileNotFoundError
           ''results/predictions_test2/dir/A__gemini-2.5-flash-lite__zeroshot__thinking0.json'')\<close>
    by (simp add: example_filename_in_subdirectory stub_env_def stub_open_def)
  from run_experiment_try_unopened [OF g t n l o]
  have r: \<open>run_experiment (stub_env (Inr (stub_response (Some ''{"a":1}''))))
        ''models/gemini-2.5-flash-lite'' [] ''dir/A.jpg'' ''zeroshot'' 0 empty_world
      = (None, print (ErrorLine (FileNotFoundError
           ''results/predictions_test2/dir/A__gemini-2.5-flash-lite__zeroshot__thinking0.json''))
          ((print (Running ''zeroshot'' 0 ''dir/A.jpg'') empty_world)
             \<lparr>requests := requests empty_world
                @ [generation_request ''models/gemini-2.5-flash-lite'' [] 0]\<rparr>))\<close>
    by (simp add: run_experiment_def)
  have d: \<open>dom (files (snd (run_experiment (stub_env (Inr (stub_response (Some ''{"a":1}''))))
        ''models/gemini-2.5-flash-lite'' [] ''dir/A.jpg'' ''zeroshot'' 0 empty_world))) = {}\<close>
    unfolding r by (simp add: print_def empty_world_def)
  have s: \<open>stdout (snd (run_experiment (stub_env (Inr (stub_response (Some ''{"a":1}''))))
        ''models/gemini-2.5-flash-lite'' [] ''dir/A.jpg'' ''zeroshot'' 0 empty_world))
      = [Running ''zeroshot'' 0 ''dir/A.jpg'',
         ErrorLine (FileNotFoundError
           ''results/predictions_test2/dir/A__gemini-2.5-flash-lite__zeroshot__thinking0.json'')]\<close>
    unfolding r by (simp add: print_def empty_world_def)
  show ?thesis
    by (rule conjI [OF g conjI [OF l conjI [OF d s]]])
qed



text \<open>
  Claim C6. When the service returns no text or the empty text, \<open>run_experiment\<close> writes
  neither a prediction file nor a metadata file, prints the empty-response warning and no
  error, and raises nothing.
\<close>

theorem run_experiment_empty_response:
  assumes "generate_content e (length (requests w)) (generation_request m msgs b) = Inr resp"
    and "response_text resp = None \<or> response_text resp = Some []"
  shows "fst (run_experiment e m msgs img s b w) = None
    \<and> files (snd (run_experiment e m msgs img s b w)) = files w
    \<and> stdout (snd (run_experiment e m msgs img s b w)) = stdout w @ [Running s b img, EmptyResponse]"
  using run_experiment_try_empty [OF assms, of img s]
  by (simp add: run_experiment_def print_def)

theorem run_experiment_empty_response_witness:
  "generate_content (stub_env (Inr (stub_response (Some [])))) (length (requests empty_world))
      (generation_request ''models/gemini-2.5-flash-lite'' [] 2000)
     = Inr (stub_response (Some []))
   \<and> (response_text (stub_response (Some [])) = None \<or> response_text (stub_response (Some [])) = Some [])
   \<and> files (snd (run_experiment (stub_env (Inr (stub_response (Some []))))
        ''models/gemini-2.5-flash-lite'' [] ''A.jpg'' ''zeroshot'' 2000 empty_world)) = Map.empty
   \<and> stdout (snd (run_experiment (stub_env (Inr (stub_response (Some []))))
        ''models/gemini-2.5-flash-lite'' [] ''A.jpg'' ''zeroshot'' 2000 empty_world))
       = [Running ''zeroshot'' 2000 ''A.jpg'', EmptyResponse]"
proof -
  have g: "generate_content (stub_env (Inr (stub_response (Some [])))) (length (requests empty_world))
      (generation_request ''models/gemini-2.5-flash-lite'' [] 2000)
     = Inr (stub_response (Some []))"
    by (simp add: stub_env_def)
  have t: "response_text (stub_response (Some [])) = None \<or> response_text (stub_response (Some [])) = Some []"
    by (simp add: stub_response_def)
  show ?thesis
    using g t run_experiment_empty_response [OF g t, of "''A.jpg''" "''zeroshot''"]
    by (simp add: empty_world_def)
qed

text \<open>
  Claim C7. Every call of \<open>run_experiment\<close> sends one request, for the given model and turns,
  that asks for the MIME type \<open>application/json\<close> and the temperature 0.9. With the budget 0
  (or below) the request carries no thinking configuration; with a budget above 0 it carries
  a thinking configuration of exactly that budget.
\<close>

theorem generation_request_configuration:
  "\<exists>tc. requests (snd (run_experiment e m msgs img s b w))
          = requests w @
            [\<lparr>req_model = m,
              req_config = \<lparr>response_mime_type = ''application/json'', temperature = 9 / 10,
                            thinking_config = tc\<rparr>,
              req_contents = msgs\<rparr>]
        \<and> (b \<le> 0 \<longrightarrow> tc = None)
        \<and> (0 < b \<longrightarrow> tc = Some (ThinkingConfig b))"
  by (simp add: run_experiment_requests generation_request_def)

theorem generation_request_configuration_witness:
  "requests (snd (run_experiment (stub_env (Inl (ServiceError ''quota'')))
        ''models/gemini-2.5-flash-lite'' [] ''A.jpg'' ''zeroshot'' 0 empty_world))
     = [\<lparr>req_model = ''models/gemini-2.5-flash-lite'',
         req_config = \<lparr>response_mime_type = ''application/json'', temperature = 9 / 10,
                       thinking_config = None\<rparr>,
         req_contents = []\<rparr>]
   \<and> requests (snd (run_experiment (stub_env (Inl (ServiceError ''quota'')))
        ''models/gemini-2.5-flash-lite'' [] ''A.jpg'' ''zeroshot'' 2000 empty_world))
     = [\<lparr>req_model = ''models/gemini-2.5-flash-lite'',
         req_config = \<lparr>response_mime_type = ''application/json'', temperature = 9 / 10,
                       thinking_config = Some (ThinkingConfig 2000)\<rparr>,
         req_contents = []\<rparr>]"
  using generation_request_configuration [of "stub_env (Inl (ServiceError ''quota''))"
      "''models/gemini-2.5-flash-lite''" "[]" "''A.jpg''" "''zeroshot''" 0 empty_world]
    generation_request_configuration [of "stub_env (Inl (ServiceError ''quota''))"
      "''models/gemini-2.5-flash-lite''" "[]" "''A.jpg''" "''zeroshot''" 2000 empty_world]
  by (auto simp add: empty_world_def)

section \<open>Combinations and the held-out target: properties\<close>

lemma combinations_length: "c \<in> set (combinations xs r) \<Longrightarrow> length c = r"
  by (induction xs r arbitrary: c rule: combinations.induct) auto

lemma combinations_set: "c \<in> set (combinations xs r) \<Longrightarrow> set c \<subseteq> set xs"
proof (induction xs r arbitrary: c rule: combinations.induct)
  case (3 x xs r)
  from "3.prems" consider c' where "c = x # c'" "c' \<in> set (combinations xs r)"
    | "c \<in> set (combinations xs (Suc r))"
    by auto
  then show ?case
  proof cases
    case 1
    with "3.IH"(1) [of c'] show ?thesis by auto
  next
    case 2
    with "3.IH"(2) [of c] show ?thesis by auto
  qed
qed simp_all

lemma combinations_distinct_member:
  "distinct xs \<Longrightarrow> c \<in> set (combinations xs r) \<Longrightarrow> distinct c"
proof (induction xs r arbitrary: c rule: combinations.induct)
  case (3 x xs r)
  from "3.prems"(2) consider c' where "c = x # c'" "c' \<in> set (combinations xs r)"
    | "c \<in> set (combinations xs (Suc r))"
    by auto
  then show ?case
  proof cases
    case 1
    from 1(2) have "set c' \<subseteq> set xs" by (rule combinations_set)
    with "3.prems"(1) have "x \<notin> set c'" by auto
    moreover from "3.IH"(1) [of c'] "3.prems"(1) 1(2) have "distinct c'" by simp
    ultimately show ?thesis using 1(1) by simp
  next
    case 2
    with "3.IH"(2) [of c] "3.prems"(1) show ?thesis by simp
  qed
qed simp_all

lemma combinations_distinct: "distinct xs \<Longrightarrow> distinct (combinations xs r)"
proof (induction xs r rule: combinations.induct)
  case (3 x xs r)
  have "x # c \<notin> set (combinations xs (Suc r))" for c
  proof
    assume "x # c \<in> set (combinations xs (Suc r))"
    then have "set (x # c) \<subseteq> set xs" by (rule combinations_set)
    with "3.prems" show False by simp
  qed
  then have "set (map ((#) x) (combinations xs r)) \<inter> set (combinations xs (Suc r)) = {}"
    by auto
  moreover have "distinct (map ((#) x) (combinations xs r))"
    using 3 by (simp add: distinct_map)
  moreover have "distinct (combinations xs (Suc r))"
    using 3 by simp
  ultimately show ?case by simp
qed simp_all

lemma combinations_count: "length (combinations xs r) = length xs choose r"
  by (induction xs r rule: combinations.induct) simp_all

lemma combinations_four:
  "combinations [0..<length IMAGE_FILES] 3 = [[0, 1, 2], [0, 1, 3], [0, 2, 3], [1, 2, 3]]"
  by code_simp

text \<open>What \<open>target_index\<close> returns, whatever the iteration order of the set.\<close>

lemma target_index_fails_iff:
  assumes "lists_sets list_of"
  shows "target_index list_of n ex = Inl IndexError \<longleftrightarrow> set [0..<n] \<subseteq> set ex"
proof -
  have "set (list_of (set [0..<n] - set ex)) = set [0..<n] - set ex"
    using assms by (simp add: lists_sets_def)
  then have "list_of (set [0..<n] - set ex) = [] \<longleftrightarrow> set [0..<n] - set ex = {}"
    by (metis set_empty)
  then show ?thesis
    by (auto simp: target_index_def subscript_def)
qed

lemma target_index_member:
  assumes "lists_sets list_of" and "target_index list_of n ex = Inr t"
  shows "t < n \<and> t \<notin> set ex"
proof -
  have s: "set (list_of (set [0..<n] - set ex)) = set [0..<n] - set ex"
    using assms(1) by (simp add: lists_sets_def)
  from assms(2) have "list_of (set [0..<n] - set ex) \<noteq> []"
    and "t = list_of (set [0..<n] - set ex) ! 0"
    by (auto simp: target_index_def subscript_def split: if_splits)
  then have "t \<in> set (list_of (set [0..<n] - set ex))"
    by (metis length_greater_0_conv nth_mem)
  with s show ?thesis by auto
qed

lemma target_index_total:
  "(\<exists>t. target_index list_of n ex = Inr t) \<or> target_index list_of n ex = Inl IndexError"
  by (simp add: target_index_def subscript_def)

lemma subset_full_iff:
  assumes "distinct ex" and "set ex \<subseteq> {0..<n}"
  shows "set [0..<n] \<subseteq> set ex \<longleftrightarrow> n = length ex"
proof
  assume "set [0..<n] \<subseteq> set ex"
  with assms(2) have "set ex = {0..<n}" by auto
  then have "card (set ex) = n" by simp
  with assms(1) show "n = length ex" by (simp add: distinct_card)
next
  assume "n = length ex"
  with assms(1) have "card (set ex) = card {0..<n}" by (simp add: distinct_card)
  with assms(2) have "set ex = {0..<n}" by (simp add: card_subset_eq)
  then show "set [0..<n] \<subseteq> set ex" by simp
qed

lemma combinations_four_sets:
  "distinct (map set (combinations [0..<length IMAGE_FILES] 3))"
  by code_simp

lemma complement_single:
  assumes "distinct c" and "set c \<subseteq> {0..<n}" and "n = Suc (length c)"
  shows "\<exists>a. {0..<n} - set c = {a}"
proof -
  have "card ({0..<n} - set c) = card {0..<n} - card (set c)"
    using assms(2) by (intro card_Diff_subset) simp_all
  also have "\<dots> = 1"
    using assms(1,3) by (simp add: distinct_card)
  finally show ?thesis
    by (simp add: card_1_singleton_iff)
qed

lemma target_index_complement:
  assumes "lists_sets list_of" and "distinct c" and "set c \<subseteq> {0..<n}" and "n = Suc (length c)"
  shows "\<exists>t. target_index list_of n c = Inr t \<and> t < n \<and> t \<notin> set c
              \<and> (\<forall>u<n. u \<notin> set c \<longrightarrow> u = t)"
proof -
  from complement_single [OF assms(2-4)] obtain a where a: "{0..<n} - set c = {a}" ..
  have "n \<noteq> length c" using assms(4) by simp
  then have "\<not> set [0..<n] \<subseteq> set c"
    using subset_full_iff [OF assms(2,3)] by simp
  then have "target_index list_of n c \<noteq> Inl IndexError"
    using target_index_fails_iff [OF assms(1), of n c] by simp
  then obtain t where t: "target_index list_of n c = Inr t"
    using target_index_total [of list_of n c] by blast
  have m: "t < n \<and> t \<notin> set c"
    using target_index_member [OF assms(1) t] .
  then have "t \<in> {0..<n} - set c" by simp
  then have ta: "t = a" using a by simp
  have "u = t" if "u < n" "u \<notin> set c" for u
  proof -
    from that have "u \<in> {0..<n} - set c" by simp
    then show ?thesis using a ta by simp
  qed
  with t m show ?thesis by blast
qed

text \<open>
  Claim C1. For the four images, \<open>combinations\<close> holds exactly 4 subsets of indices, no two
  the same, each of 3 distinct indices below 4; and for each of them \<open>target_index\<close> is the
  one index below 4 that the subset leaves out.
\<close>

theorem combinations_of_four_images:
  assumes "lists_sets list_of"
  shows "length (combinations [0..<length IMAGE_FILES] 3) = 4
    \<and> distinct (map set (combinations [0..<length IMAGE_FILES] 3))
    \<and> (\<forall>c \<in> set (combinations [0..<length IMAGE_FILES] 3).
         length c = 3 \<and> distinct c \<and> set c \<subseteq> {0..<4}
         \<and> (\<exists>t. target_index list_of (length IMAGE_FILES) c = Inr t
                \<and> t < 4 \<and> t \<notin> set c \<and> (\<forall>u<4. u \<notin> set c \<longrightarrow> u = t)))"
proof (intro conjI ballI)
  show "length (combinations [0..<length IMAGE_FILES] 3) = 4"
    by (simp add: combinations_four)
  show "distinct (map set (combinations [0..<length IMAGE_FILES] 3))"
    by (rule combinations_four_sets)
next
  fix c assume c: "c \<in> set (combinations [0..<length IMAGE_FILES] 3)"
  have n: "length IMAGE_FILES = 4" by (simp add: IMAGE_FILES_def)
  show l: "length c = 3" using c by (rule combinations_length)
  have "distinct [0..<length IMAGE_FILES]" by simp
  then show d: "distinct c" using c by (rule combinations_distinct_member)
  have "set c \<subseteq> set [0..<length IMAGE_FILES]" using c by (rule combinations_set)
  then show s: "set c \<subseteq> {0..<4}" by (simp add: n)
  have "4 = Suc (length c)" by (simp add: l)
  from target_index_complement [OF assms d s this]
  show "\<exists>t. target_index list_of (length IMAGE_FILES) c = Inr t
                \<and> t < 4 \<and> t \<notin> set c \<and> (\<forall>u<4. u \<notin> set c \<longrightarrow> u = t)"
    by (simp only: n)
qed

theorem combinations_of_four_images_witness:
  "lists_sets sorted_list_of_set
   \<and> [0, 1, 3] \<in> set (combinations [0..<length IMAGE_FILES] 3)
   \<and> target_index sorted_list_of_set (length IMAGE_FILES) [0, 1, 3] = Inr 2"
proof -
  have l: "lists_sets sorted_list_of_set" by (simp add: lists_sets_def)
  have c: "[0, 1, 3] \<in> set (combinations [0..<length IMAGE_FILES] 3)"
    by (simp add: combinations_four)
  from combinations_of_four_images [OF l] c
  obtain t where t: "target_index sorted_list_of_set (length IMAGE_FILES) [0, 1, 3] = Inr t"
    and u: "\<forall>u<4. u \<notin> set [0, 1, 3::nat] \<longrightarrow> u = t"
    by blast
  have "(2::nat) < 4 \<and> 2 \<notin> set [0, 1, 3::nat]" by simp
  with u have "2 = t" by blast
  with t l c show ?thesis by simp
qed

text \<open>
  Claim C8, as the code has it. Let the example subset consist of distinct indices below
  \<open>N\<close>. The extraction of the complement fails, with an index-out-of-range error on the empty
  list, exactly when \<open>N = len(subset)\<close>, that is when the subset leaves no index over. In every
  other case, also when \<open>N\<close> is larger than \<open>len(subset) + 1\<close>, it does not fail: it returns an
  index below \<open>N\<close> that is not in the subset.
\<close>

theorem target_index_failure:
  assumes "lists_sets list_of" and "distinct ex" and "set ex \<subseteq> {0..<n}"
  shows "(target_index list_of n ex = Inl IndexError \<longleftrightarrow> n = length ex)
    \<and> (n \<noteq> length ex \<longrightarrow> (\<exists>t. target_index list_of n ex = Inr t \<and> t < n \<and> t \<notin> set ex))"
proof -
  have f: "target_index list_of n ex = Inl IndexError \<longleftrightarrow> n = length ex"
    using target_index_fails_iff [OF assms(1), of n ex] subset_full_iff [OF assms(2,3)] by simp
  have "\<exists>t. target_index list_of n ex = Inr t \<and> t < n \<and> t \<notin> set ex" if "n \<noteq> length ex"
  proof -
    from that f target_index_total [of list_of n ex]
    obtain t where t: "target_index list_of n ex = Inr t" by auto
    with target_index_member [OF assms(1) t] show ?thesis by blast
  qed
  with f show ?thesis by blast
qed

theorem target_index_failure_witness:
  "lists_sets sorted_list_of_set \<and> distinct [0, 1, 2::nat]
   \<and> set [0, 1, 2::nat] \<subseteq> {0..<3} \<and> set [0, 1, 2::nat] \<subseteq> {0..<6}
   \<and> target_index sorted_list_of_set 3 [0, 1, 2] = Inl IndexError
   \<and> (\<exists>t. target_index sorted_list_of_set 6 [0, 1, 2] = Inr t \<and> t < 6 \<and> t \<notin> set [0, 1, 2])"
proof -
  have l: "lists_sets sorted_list_of_set" by (simp add: lists_sets_def)
  have d: "distinct [0, 1, 2::nat]" by simp
  have s3: "set [0, 1, 2::nat] \<subseteq> {0..<3}" and s6: "set [0, 1, 2::nat] \<subseteq> {0..<6}" by auto
  show ?thesis
    using l d s3 s6 target_index_failure [OF l d s3] target_index_failure [OF l d s6]
    by simp
qed

text \<open>
  With five images and the examples 0, 1, 2 the size is not \<open>len(subset) + 1\<close>, and yet the
  extraction returns a target index (3, the first of the two indices left over).
\<close>

theorem target_index_no_failure_counterexample:
  "(5::nat) \<noteq> length [0, 1, 2::nat] + 1 \<and> target_index sorted_list_of_set 5 [0, 1, 2] = Inr 3"
  by code_simp


section \<open>The message builder: properties\<close>

lemma fewshot_examples_result:
  assumes "\<forall>idx \<in> set example_indices.
             idx < length IMAGE_FILES
             \<and> load_ground_truth e (IMAGE_FILES ! idx) = Inr (gt idx)
             \<and> image_parts (IMAGE_FILES ! idx) = Some (img idx)"
  shows "fewshot_examples e image_parts prompt_part acc example_indices
     = Inr (acc @ concat (map (\<lambda>idx. [user_turn (img idx) prompt_part,
                                       model_turn (TextPart (json_dumps e (gt idx)))])
                          example_indices))"
  using assms
proof (induction example_indices arbitrary: acc)
  case Nil
  then show ?case by simp
next
  case (Cons idx rest)
  then show ?case
    by (simp add: subscript_def lookup_def)
qed





section \<open>The prompt part in the requests of the script\<close>

lemma user_turns_use_append:
  "user_turns_use p (a @ b) \<longleftrightarrow> user_turns_use p a \<and> user_turns_use p b"
  by (simp add: user_turns_use_def)

lemma user_turns_use_user_turn: "user_turns_use p [user_turn image_part p]"
  by (simp add: user_turns_use_def user_turn_def)

lemma user_turns_use_model_turn: "user_turns_use p [model_turn gt_part]"
  by (simp add: user_turns_use_def model_turn_def)

lemma fewshot_examples_use:
  "user_turns_use p acc \<Longrightarrow> fewshot_examples e image_parts p acc ex = Inr msgs \<Longrightarrow>
   user_turns_use p msgs"
proof (induction ex arbitrary: acc)
  case Nil
  then show ?case by simp
next
  case (Cons idx rest)
  from Cons.prems(2) obtain example_image gt_response image_part where
    r: "fewshot_examples e image_parts p
          (acc @ [user_turn image_part p, model_turn (TextPart (json_dumps e gt_response))]) rest
        = Inr msgs"
    by (auto split: sum.splits)
  have "user_turns_use p
          (acc @ [user_turn image_part p] @ [model_turn (TextPart (json_dumps e gt_response))])"
    using Cons.prems(1)
    by (simp only: user_turns_use_append user_turns_use_user_turn user_turns_use_model_turn)
  then show ?case
    using Cons.IH [OF _ r] by simp
qed

lemma build_messages_fewshot_use:
  "build_messages_fewshot e image_parts p ex target_image = Inr msgs \<Longrightarrow> user_turns_use p msgs"
proof -
  assume a: "build_messages_fewshot e image_parts p ex target_image = Inr msgs"
  then obtain m image_part where m: "fewshot_examples e image_parts p [] ex = Inr m"
    and r: "msgs = m @ [user_turn image_part p]"
    by (auto simp: build_messages_fewshot_def split: sum.splits)
  have "user_turns_use p []" by (simp add: user_turns_use_def)
  from fewshot_examples_use [OF this m] show ?thesis
    by (simp add: r user_turns_use_append user_turns_use_user_turn)
qed

lemma build_messages_zeroshot_use:
  "build_messages_zeroshot image_parts p target_image = Inr msgs \<Longrightarrow> user_turns_use p msgs"
  by (auto simp: build_messages_zeroshot_def user_turns_use_user_turn split: sum.splits)

lemma requests_use_append:
  "requests_use p (a @ b) \<longleftrightarrow> requests_use p a \<and> requests_use p b"
  by (simp add: requests_use_def)

lemma requests_print [simp]: "requests (print l w) = requests w"
  by (simp add: print_def)

lemma run_experiment_sends:
  "user_turns_use p msgs \<Longrightarrow>
   \<exists>new. requests (snd (run_experiment e m msgs img s b w)) = requests w @ new \<and> requests_use p new"
  by (simp add: run_experiment_requests requests_use_def generation_request_def)

lemma sends_nothing:
  "requests w' = requests w \<Longrightarrow> \<exists>new. requests w' = requests w @ new \<and> requests_use p new"
  by (simp add: requests_use_def)

lemma budget_body_sends:
  "\<exists>new. requests (snd (budget_body e image_parts p m ex target_image b w)) = requests w @ new
         \<and> requests_use p new"
proof (cases "build_messages_fewshot e image_parts p ex target_image")
  case (Inl err)
  then have "requests (snd (budget_body e image_parts p m ex target_image b w)) = requests w"
    by (simp add: budget_body_def)
  then show ?thesis by (rule sends_nothing)
next
  case (Inr messages_fewshot)
  from run_experiment_sends [OF build_messages_fewshot_use [OF Inr], of e m target_image "''fewshot''" b w]
  obtain n1 where n1: "requests (snd (run_experiment e m messages_fewshot target_image ''fewshot'' b w))
      = requests w @ n1" and u1: "requests_use p n1"
    by blast
  obtain w1 where w1: "run_experiment e m messages_fewshot target_image ''fewshot'' b w = (None, w1)"
    using run_experiment_no_raise [of e m messages_fewshot target_image "''fewshot''" b w]
    by (cases "run_experiment e m messages_fewshot target_image ''fewshot'' b w") simp
  with n1 have r1: "requests w1 = requests w @ n1" by simp
  show ?thesis
  proof (cases "build_messages_zeroshot image_parts p target_image")
    case (Inl err)
    then have "budget_body e image_parts p m ex target_image b w = (Some err, w1)"
      using Inr w1 by (simp add: budget_body_def)
    with r1 u1 show ?thesis by simp
  next
    case z: (Inr messages_zeroshot)
    from run_experiment_sends [OF build_messages_zeroshot_use [OF z], of e m target_image "''zeroshot''" b w1]
    obtain n2 where n2: "requests (snd (run_experiment e m messages_zeroshot target_image ''zeroshot'' b w1))
        = requests w1 @ n2" and u2: "requests_use p n2"
      by blast
    have "budget_body e image_parts p m ex target_image b w
        = run_experiment e m messages_zeroshot target_image ''zeroshot'' b w1"
      using Inr w1 z by (simp add: budget_body_def)
    with n2 r1 have "requests (snd (budget_body e image_parts p m ex target_image b w))
        = requests w @ (n1 @ n2)"
      by simp
    moreover have "requests_use p (n1 @ n2)"
      using u1 u2 by (simp add: requests_use_append)
    ultimately show ?thesis by blast
  qed
qed

lemma for_each_sends:
  assumes "\<And>x w. \<exists>new. requests (snd (body x w)) = requests w @ new \<and> requests_use p new"
  shows "\<exists>new. requests (snd (for_each body xs w)) = requests w @ new \<and> requests_use p new"
proof (induction xs arbitrary: w)
  case Nil
  have "requests (snd (for_each body [] w)) = requests w @ []" by simp
  moreover have "requests_use p []" by (simp add: requests_use_def)
  ultimately show ?case by blast
next
  case (Cons x xs)
  from assms [of x w] obtain n1 where n1: "requests (snd (body x w)) = requests w @ n1"
    and u1: "requests_use p n1"
    by blast
  obtain r w1 where b: "body x w = (r, w1)" by (cases "body x w")
  with n1 have r1: "requests w1 = requests w @ n1" by simp
  show ?case
  proof (cases r)
    case None
    from Cons.IH [of w1] obtain n2 where n2: "requests (snd (for_each body xs w1)) = requests w1 @ n2"
      and u2: "requests_use p n2"
      by blast
    have "for_each body (x # xs) w = for_each body xs w1"
      using b None by simp
    with n2 r1 have "requests (snd (for_each body (x # xs) w)) = requests w @ (n1 @ n2)"
      by simp
    moreover have "requests_use p (n1 @ n2)"
      using u1 u2 by (simp add: requests_use_append)
    ultimately show ?thesis by blast
  next
    case (Some err)
    then have "for_each body (x # xs) w = (Some err, w1)"
      using b by simp
    with r1 u1 show ?thesis by simp
  qed
qed

lemma combination_body_sends:
  "\<exists>new. requests (snd (combination_body e image_parts p m c w)) = requests w @ new
         \<and> requests_use p new"
proof (cases "target_index (list_of_set e) (length IMAGE_FILES) c")
  case (Inl err)
  then have "requests (snd (combination_body e image_parts p m c w)) = requests w"
    by (simp add: combination_body_def)
  then show ?thesis by (rule sends_nothing)
next
  case (Inr target_idx)
  show ?thesis
  proof (cases "subscript IMAGE_FILES target_idx")
    case (Inl err)
    then have "requests (snd (combination_body e image_parts p m c w)) = requests w"
      using Inr by (simp add: combination_body_def)
    then show ?thesis by (rule sends_nothing)
  next
    case t: (Inr target_image)
    have "combination_body e image_parts p m c w
        = for_each (budget_body e image_parts p m c target_image) THINKING_BUDGETS
            (print (TargetLine target_image) w)"
      using Inr t by (simp add: combination_body_def)
    moreover from for_each_sends [of "budget_body e image_parts p m c target_image" p
        THINKING_BUDGETS "print (TargetLine target_image) w", OF budget_body_sends]
    have "\<exists>new. requests (snd (for_each (budget_body e image_parts p m c target_image)
              THINKING_BUDGETS (print (TargetLine target_image) w))) = requests w @ new
            \<and> requests_use p new"
      by simp
    ultimately show ?thesis by simp
  qed
qed

lemma model_body_sends:
  "\<exists>new. requests (snd (model_body e image_parts p combs m w)) = requests w @ new
         \<and> requests_use p new"
  using for_each_sends [of "combination_body e image_parts p m" p combs "print (ModelBanner m) w",
      OF combination_body_sends]
  by (simp add: model_body_def)

lemma upload_all_requests: "requests (snd (upload_all e fs image_parts w)) = requests w"
proof (induction fs arbitrary: image_parts w)
  case Nil
  then show ?case by simp
next
  case (Cons f fs)
  show ?case
  proof (cases "files_upload e f")
    case (Inl err)
    then show ?thesis by (simp add: upload_image_def)
  next
    case (Inr uploaded)
    then show ?thesis using Cons.IH by (simp add: upload_image_def)
  qed
qed

lemma script_sends:
  "\<exists>new. requests (snd (script e w)) = requests w @ new
         \<and> (new = [] \<or> (\<exists>prompt_text. load_prompt e = Inr prompt_text
                           \<and> requests_use (TextPart prompt_text) new))"
proof (cases "gemini_api_key e")
  case None
  then show ?thesis by (simp add: script_def)
next
  case (Some api_key)
  show ?thesis
  proof (cases "load_prompt e")
    case (Inl err)
    then show ?thesis using Some by (simp add: script_def)
  next
    case (Inr prompt_text)
    obtain r w1 where u: "upload_all e IMAGE_FILES Map.empty (print UploadingImages w) = (r, w1)"
      by (cases "upload_all e IMAGE_FILES Map.empty (print UploadingImages w)")
    from upload_all_requests [of e IMAGE_FILES Map.empty "print UploadingImages w"] u
    have r1: "requests w1 = requests w" by simp
    show ?thesis
    proof (cases r)
      case (Inl err)
      then have "script e w = (Some err, w1)"
        using Some Inr u by (simp add: script_def)
      with r1 show ?thesis by simp
    next
      case ip: (Inr image_parts)
      from for_each_sends [of "model_body e image_parts (TextPart prompt_text)
            (combinations [0..<length IMAGE_FILES] 3)" "TextPart prompt_text" MODELS w1,
          OF model_body_sends]
      obtain new where n: "requests (snd (for_each (model_body e image_parts (TextPart prompt_text)
            (combinations [0..<length IMAGE_FILES] 3)) MODELS w1)) = requests w1 @ new"
        and un: "requests_use (TextPart prompt_text) new"
        by blast
      obtain r2 w2 where f: "for_each (model_body e image_parts (TextPart prompt_text)
            (combinations [0..<length IMAGE_FILES] 3)) MODELS w1 = (r2, w2)"
        by (cases "for_each (model_body e image_parts (TextPart prompt_text)
            (combinations [0..<length IMAGE_FILES] 3)) MODELS w1")
      have "requests (snd (script e w)) = requests w2"
        using Some Inr u ip f by (cases r2) (simp_all add: script_def)
      with n f r1 have "requests (snd (script e w)) = requests w @ new" by simp
      with un Inr show ?thesis by blast
    qed
  qed
qed

lemma two_parts: "length ps = 2 \<Longrightarrow> ps = [ps ! 0, ps ! 1]"
  by (cases ps; cases "tl ps") auto


section \<open>The requests of a run in which every input is present\<close>

lemma run_experiment_step:
  "\<exists>w1. run_experiment e m msgs img s b w = (None, w1)
        \<and> requests w1 = requests w @ [generation_request m msgs b]"
  using run_experiment_no_raise [of e m msgs img s b w]
    run_experiment_requests [of e m msgs img s b w]
  by (cases "run_experiment e m msgs img s b w") simp

lemma budget_body_requests:
  assumes "build_messages_fewshot e image_parts p ex t = Inr mf"
    and "build_messages_zeroshot image_parts p t = Inr mz"
  shows "fst (budget_body e image_parts p m ex t b w) = None
    \<and> requests (snd (budget_body e image_parts p m ex t b w))
        = requests w @ [generation_request m mf b, generation_request m mz b]"
proof -
  from run_experiment_step [of e m mf t "''fewshot''" b w]
  obtain w1 where 1: "run_experiment e m mf t ''fewshot'' b w = (None, w1)"
    and r1: "requests w1 = requests w @ [generation_request m mf b]"
    by blast
  from run_experiment_step [of e m mz t "''zeroshot''" b w1]
  obtain w2 where 2: "run_experiment e m mz t ''zeroshot'' b w1 = (None, w2)"
    and r2: "requests w2 = requests w1 @ [generation_request m mz b]"
    by blast
  have "budget_body e image_parts p m ex t b w = (None, w2)"
    using assms 1 2 by (simp add: budget_body_def)
  with r1 r2 show ?thesis by simp
qed

lemma for_each_requests:
  assumes "\<And>x w. x \<in> set xs \<Longrightarrow>
             fst (body x w) = None \<and> requests (snd (body x w)) = requests w @ g x"
  shows "fst (for_each body xs w) = None
    \<and> requests (snd (for_each body xs w)) = requests w @ concat (map g xs)"
  using assms
proof (induction xs arbitrary: w)
  case Nil
  then show ?case by simp
next
  case (Cons x xs)
  have "fst (body x w) = None \<and> requests (snd (body x w)) = requests w @ g x"
    by (rule Cons.prems) simp
  then obtain w1 where b: "body x w = (None, w1)" and r1: "requests w1 = requests w @ g x"
    by (cases "body x w") simp
  have "fst (for_each body xs w1) = None
    \<and> requests (snd (for_each body xs w1)) = requests w1 @ concat (map g xs)"
    by (rule Cons.IH) (simp add: Cons.prems)
  moreover have "for_each body (x # xs) w = for_each body xs w1"
    using b by simp
  ultimately show ?case using r1 by simp
qed

lemma combination_body_requests:
  assumes "target_index (list_of_set e) (length IMAGE_FILES) c = Inr ti"
    and "subscript IMAGE_FILES ti = Inr t"
    and "build_messages_fewshot e image_parts p c t = Inr mf"
    and "build_messages_zeroshot image_parts p t = Inr mz"
  shows "fst (combination_body e image_parts p m c w) = None
    \<and> requests (snd (combination_body e image_parts p m c w))
        = requests w @ concat (map (\<lambda>b. [generation_request m mf b, generation_request m mz b])
                                  THINKING_BUDGETS)"
proof -
  have "combination_body e image_parts p m c w
      = for_each (budget_body e image_parts p m c t) THINKING_BUDGETS (print (TargetLine t) w)"
    using assms(1,2) by (simp add: combination_body_def)
  moreover have "fst (for_each (budget_body e image_parts p m c t) THINKING_BUDGETS
        (print (TargetLine t) w)) = None
    \<and> requests (snd (for_each (budget_body e image_parts p m c t) THINKING_BUDGETS
        (print (TargetLine t) w)))
      = requests (print (TargetLine t) w)
        @ concat (map (\<lambda>b. [generation_request m mf b, generation_request m mz b]) THINKING_BUDGETS)"
    by (rule for_each_requests) (rule budget_body_requests [OF assms(3,4)])
  ultimately show ?thesis by simp
qed

lemma model_body_requests:
  assumes "\<And>c. c \<in> set combs \<Longrightarrow>
             target_index (list_of_set e) (length IMAGE_FILES) c = Inr (ti c)
             \<and> subscript IMAGE_FILES (ti c) = Inr (t c)
             \<and> build_messages_fewshot e image_parts p c (t c) = Inr (mf c)
             \<and> build_messages_zeroshot image_parts p (t c) = Inr (mz c)"
  shows "fst (model_body e image_parts p combs m w) = None
    \<and> requests (snd (model_body e image_parts p combs m w))
        = requests w
          @ concat (map (\<lambda>c. concat (map (\<lambda>b. [generation_request m (mf c) b,
                                                 generation_request m (mz c) b])
                                          THINKING_BUDGETS))
                        combs)"
proof -
  have "fst (for_each (combination_body e image_parts p m) combs (print (ModelBanner m) w)) = None
    \<and> requests (snd (for_each (combination_body e image_parts p m) combs (print (ModelBanner m) w)))
      = requests (print (ModelBanner m) w)
        @ concat (map (\<lambda>c. concat (map (\<lambda>b. [generation_request m (mf c) b,
                                               generation_request m (mz c) b])
                                        THINKING_BUDGETS))
                      combs)"
  proof (rule for_each_requests)
    fix c w' assume c: "c \<in> set combs"
    from assms [OF c]
    have 1: "target_index (list_of_set e) (length IMAGE_FILES) c = Inr (ti c)"
      and 2: "subscript IMAGE_FILES (ti c) = Inr (t c)"
      and 3: "build_messages_fewshot e image_parts p c (t c) = Inr (mf c)"
      and 4: "build_messages_zeroshot image_parts p (t c) = Inr (mz c)"
      by simp_all
    show "fst (combination_body e image_parts p m c w') = None
      \<and> requests (snd (combination_body e image_parts p m c w'))
        = requests w' @ concat (map (\<lambda>b. [generation_request m (mf c) b,
                                           generation_request m (mz c) b]) THINKING_BUDGETS)"
      by (rule combination_body_requests [OF 1 2 3 4])
  qed
  then show ?thesis by (simp add: model_body_def)
qed

lemma script_requests:
  assumes "gemini_api_key e = Some api_key"
    and "load_prompt e = Inr prompt_text"
    and "upload_all e IMAGE_FILES Map.empty (print UploadingImages w) = (Inr image_parts, w1)"
    and "\<And>c. c \<in> set (combinations [0..<length IMAGE_FILES] 3) \<Longrightarrow>
             target_index (list_of_set e) (length IMAGE_FILES) c = Inr (ti c)
             \<and> subscript IMAGE_FILES (ti c) = Inr (t c)
             \<and> build_messages_fewshot e image_parts (TextPart prompt_text) c (t c) = Inr (mf c)
             \<and> build_messages_zeroshot image_parts (TextPart prompt_text) (t c) = Inr (mz c)"
  shows "requests (snd (script e w))
      = requests w
        @ concat (map (\<lambda>m. concat (map (\<lambda>c. concat (map (\<lambda>b. [generation_request m (mf c) b,
                                                                generation_request m (mz c) b])
                                                         THINKING_BUDGETS))
                                       (combinations [0..<length IMAGE_FILES] 3)))
                      MODELS)"
proof -
  have f: "fst (for_each (model_body e image_parts (TextPart prompt_text)
                 (combinations [0..<length IMAGE_FILES] 3)) MODELS w1) = None
    \<and> requests (snd (for_each (model_body e image_parts (TextPart prompt_text)
                 (combinations [0..<length IMAGE_FILES] 3)) MODELS w1))
      = requests w1
        @ concat (map (\<lambda>m. concat (map (\<lambda>c. concat (map (\<lambda>b. [generation_request m (mf c) b,
                                                                generation_request m (mz c) b])
                                                         THINKING_BUDGETS))
                                       (combinations [0..<length IMAGE_FILES] 3)))
                      MODELS)"
    by (rule for_each_requests) (rule model_body_requests, rule assms(4))
  obtain w2 where w2: "for_each (model_body e image_parts (TextPart prompt_text)
                 (combinations [0..<length IMAGE_FILES] 3)) MODELS w1 = (None, w2)"
    using f by (cases "for_each (model_body e image_parts (TextPart prompt_text)
                 (combinations [0..<length IMAGE_FILES] 3)) MODELS w1") simp
  have "script e w = (None, print ExperimentsComplete w2)"
    using assms(1-3) w2 by (simp add: script_def)
  moreover have "requests w1 = requests w"
    using upload_all_requests [of e IMAGE_FILES Map.empty "print UploadingImages w"] assms(3)
    by simp
  ultimately show ?thesis using f w2 by simp
qed

lemma upload_all_result:
  assumes "\<forall>f \<in> set fs. files_upload e f = Inr (fd f)"
  shows "\<exists>image_parts w1. upload_all e fs ip0 w = (Inr image_parts, w1)
    \<and> (\<forall>f \<in> set fs. image_parts f
          = Some (FilePart \<lparr>mime_type = mime_type (fd f), file_uri = file_uri (fd f)\<rparr>))
    \<and> (\<forall>f. f \<notin> set fs \<longrightarrow> image_parts f = ip0 f)"
  using assms
proof (induction fs arbitrary: ip0 w)
  case Nil
  then show ?case by simp
next
  case (Cons f fs)
  have u: "upload_image e f w
      = (Inr (FilePart \<lparr>mime_type = mime_type (fd f), file_uri = file_uri (fd f)\<rparr>),
         print (Uploaded f) w)"
    using Cons.prems by (simp add: upload_image_def)
  have "\<forall>g \<in> set fs. files_upload e g = Inr (fd g)"
    using Cons.prems by simp
  from Cons.IH [OF this,
      of "ip0(f \<mapsto> FilePart \<lparr>mime_type = mime_type (fd f), file_uri = file_uri (fd f)\<rparr>)"
         "print (Uploaded f) w"]
  obtain image_parts w1 where
    r: "upload_all e fs (ip0(f \<mapsto> FilePart \<lparr>mime_type = mime_type (fd f), file_uri = file_uri (fd f)\<rparr>))
          (print (Uploaded f) w) = (Inr image_parts, w1)"
    and i: "\<forall>g \<in> set fs. image_parts g
          = Some (FilePart \<lparr>mime_type = mime_type (fd g), file_uri = file_uri (fd g)\<rparr>)"
    and o: "\<forall>g. g \<notin> set fs \<longrightarrow> image_parts g
          = (ip0(f \<mapsto> FilePart \<lparr>mime_type = mime_type (fd f), file_uri = file_uri (fd f)\<rparr>)) g"
    by blast
  have "upload_all e (f # fs) ip0 w = (Inr image_parts, w1)"
    using u r by simp
  moreover have "\<forall>g \<in> set (f # fs). image_parts g
          = Some (FilePart \<lparr>mime_type = mime_type (fd g), file_uri = file_uri (fd g)\<rparr>)"
  proof
    fix g assume g: "g \<in> set (f # fs)"
    show "image_parts g = Some (FilePart \<lparr>mime_type = mime_type (fd g), file_uri = file_uri (fd g)\<rparr>)"
    proof (cases "g \<in> set fs")
      case True
      with i show ?thesis by simp
    next
      case False
      with g have "g = f" by simp
      with False o show ?thesis by simp
    qed
  qed
  moreover have "\<forall>g. g \<notin> set (f # fs) \<longrightarrow> image_parts g = ip0 g"
    using o by simp
  ultimately show ?case by blast
qed

lemma build_messages_result:
  assumes "\<forall>idx \<in> set example_indices.
             idx < length IMAGE_FILES
             \<and> load_ground_truth e (IMAGE_FILES ! idx) = Inr (gt idx)
             \<and> image_parts (IMAGE_FILES ! idx) = Some (img idx)"
    and "image_parts target_image = Some target_part"
  shows "build_messages_fewshot e image_parts p example_indices target_image
      = Inr (concat (map (\<lambda>idx. [user_turn (img idx) p,
                                  model_turn (TextPart (json_dumps e (gt idx)))])
                         example_indices)
             @ [user_turn target_part p])
    \<and> build_messages_zeroshot image_parts p target_image = Inr [user_turn target_part p]"
  using fewshot_examples_result [OF assms(1), of p "[]"] assms(2)
  by (simp add: build_messages_fewshot_def build_messages_zeroshot_def lookup_def)


text \<open>The run of the script against the stub service: sixteen requests are sent.\<close>

lemma stub_ground_truth:
  "\<forall>i \<in> set [0..<length IMAGE_FILES].
     load_ground_truth (stub_env outcome) (IMAGE_FILES ! i) = Inr (JObject [(''a'', JInt 1)])"
  by code_simp

lemma stub_targets:
  "\<forall>c \<in> set (combinations [0..<length IMAGE_FILES] 3).
     target_index (list_of_set (stub_env outcome)) (length IMAGE_FILES) c
       = Inr (hd (filter (\<lambda>i. i \<notin> set c) [0..<4]))
     \<and> hd (filter (\<lambda>i. i \<notin> set c) [0..<4]) < length IMAGE_FILES"
  by code_simp

lemma stub_script_requests:
  "length (requests (snd (script (stub_env outcome) empty_world))) = 16
   \<and> (\<exists>r \<in> set (requests (snd (script (stub_env outcome) empty_world))).
        \<exists>t \<in> set (req_contents r). role t = ''user'')"
proof -
  define e where "e = stub_env outcome"
  define fd where "fd = (\<lambda>f. \<lparr>mime_type = ''image/jpeg'', file_uri = ''files/'' @ f\<rparr>)"
  define img where "img = (\<lambda>i. FilePart \<lparr>mime_type = mime_type (fd (IMAGE_FILES ! i)),
                                          file_uri = file_uri (fd (IMAGE_FILES ! i))\<rparr>)"
  define ti where "ti = (\<lambda>c. hd (filter (\<lambda>i. i \<notin> set c) [0..<4]))"
  define p where "p = TextPart ''Perform the following task using step-by-step reasoning.Extract the records.''"
  define mf where "mf = (\<lambda>c. concat (map (\<lambda>idx. [user_turn (img idx) p,
        model_turn (TextPart (json_dumps e (JObject [(''a'', JInt 1)])))]) c)
      @ [user_turn (img (ti c)) p])"
  define mz where "mz = (\<lambda>c. [user_turn (img (ti c)) p])"
  have k: "gemini_api_key e = Some ''key''"
    by (simp add: e_def stub_env_def)
  have lp: "load_prompt e
      = Inr ''Perform the following task using step-by-step reasoning.Extract the records.''"
    by (simp add: e_def load_prompt_def stub_env_def)
  have "\<forall>f \<in> set IMAGE_FILES. files_upload e f = Inr (fd f)"
    by (simp add: e_def stub_env_def fd_def)
  from upload_all_result [OF this, of Map.empty "print UploadingImages empty_world"]
  obtain image_parts w1 where
    up: "upload_all e IMAGE_FILES Map.empty (print UploadingImages empty_world) = (Inr image_parts, w1)"
    and ip: "\<forall>f \<in> set IMAGE_FILES. image_parts f
          = Some (FilePart \<lparr>mime_type = mime_type (fd f), file_uri = file_uri (fd f)\<rparr>)"
    by blast
  have ipi: "image_parts (IMAGE_FILES ! i) = Some (img i)" if "i < length IMAGE_FILES" for i
    using ip that by (simp add: img_def)
  have gt: "load_ground_truth e (IMAGE_FILES ! i) = Inr (JObject [(''a'', JInt 1)])"
    if "i < length IMAGE_FILES" for i
    using stub_ground_truth [of outcome] that by (simp add: e_def)
  have per: "target_index (list_of_set e) (length IMAGE_FILES) c = Inr (ti c)
             \<and> subscript IMAGE_FILES (ti c) = Inr (IMAGE_FILES ! ti c)
             \<and> build_messages_fewshot e image_parts p c (IMAGE_FILES ! ti c) = Inr (mf c)
             \<and> build_messages_zeroshot image_parts p (IMAGE_FILES ! ti c) = Inr (mz c)"
    if c: "c \<in> set (combinations [0..<length IMAGE_FILES] 3)" for c
  proof -
    from stub_targets [of outcome] c
    have t1: "target_index (list_of_set e) (length IMAGE_FILES) c = Inr (ti c)"
      and t2: "ti c < length IMAGE_FILES"
      by (simp_all add: e_def ti_def)
    from t2 have s: "subscript IMAGE_FILES (ti c) = Inr (IMAGE_FILES ! ti c)"
      by (simp add: subscript_def)
    have "set c \<subseteq> set [0..<length IMAGE_FILES]" using c by (rule combinations_set)
    then have "\<forall>idx \<in> set c. idx < length IMAGE_FILES
             \<and> load_ground_truth e (IMAGE_FILES ! idx) = Inr (JObject [(''a'', JInt 1)])
             \<and> image_parts (IMAGE_FILES ! idx) = Some (img idx)"
      using gt ipi by auto
    from build_messages_result [OF this ipi [OF t2], of p]
    have "build_messages_fewshot e image_parts p c (IMAGE_FILES ! ti c) = Inr (mf c)"
      and "build_messages_zeroshot image_parts p (IMAGE_FILES ! ti c) = Inr (mz c)"
      by (simp_all add: mf_def mz_def)
    with t1 s show ?thesis by simp
  qed
  have r: "requests (snd (script e empty_world))
      = requests empty_world
        @ concat (map (\<lambda>m. concat (map (\<lambda>c. concat (map (\<lambda>b. [generation_request m (mf c) b,
                                                                generation_request m (mz c) b])
                                                         THINKING_BUDGETS))
                                       (combinations [0..<length IMAGE_FILES] 3)))
                      MODELS)"
    using k lp up per unfolding p_def by (rule script_requests)
  have re: "requests empty_world = []" by (simp add: empty_world_def)
  have l: "length (requests (snd (script e empty_world))) = 16"
    by (simp add: r re MODELS_def THINKING_BUDGETS_def combinations_four)
  have "generation_request ''models/gemini-2.5-flash-lite'' (mz [0, 1, 2]) 0
      \<in> set (requests (snd (script e empty_world)))"
    by (simp add: r re MODELS_def THINKING_BUDGETS_def combinations_four)
  moreover have "user_turn (img (ti [0, 1, 2])) p
      \<in> set (req_contents (generation_request ''models/gemini-2.5-flash-lite'' (mz [0, 1, 2]) 0))"
    by (simp add: generation_request_def mz_def)
  moreover have "role (user_turn (img (ti [0, 1, 2])) p) = ''user''"
    by (simp add: user_turn_def)
  ultimately have "\<exists>r \<in> set (requests (snd (script e empty_world))).
        \<exists>t \<in> set (req_contents r). role t = ''user''"
    by blast
  with l show ?thesis by (simp add: e_def)
qed


text \<open>
  Claim C9. The script loads the prompt once, before its loops. Every request that it sends,
  few-shot or zero-shot, for every model, combination and budget, has in each of its user
  turns the image part followed by one and the same text part: the text that \<open>load_prompt\<close>
  returned.
\<close>

theorem prompt_part_shared:
  "\<exists>new. requests (snd (script e w)) = requests w @ new
     \<and> (\<forall>r \<in> set new. \<forall>t \<in> set (req_contents r).
          role t = ''user'' \<longrightarrow>
            (\<exists>image_part prompt_text.
               load_prompt e = Inr prompt_text \<and> parts t = [image_part, TextPart prompt_text]))"
proof -
  from script_sends [of e w] obtain new where
    n: "requests (snd (script e w)) = requests w @ new"
    and u: "new = [] \<or> (\<exists>prompt_text. load_prompt e = Inr prompt_text
                           \<and> requests_use (TextPart prompt_text) new)"
    by blast
  have "\<exists>image_part prompt_text.
          load_prompt e = Inr prompt_text \<and> parts t = [image_part, TextPart prompt_text]"
    if r: "r \<in> set new" and t: "t \<in> set (req_contents r)" and ro: "role t = ''user''" for r t
  proof -
    from r have "new \<noteq> []" by auto
    with u obtain prompt_text where p: "load_prompt e = Inr prompt_text"
      and q: "requests_use (TextPart prompt_text) new"
      by blast
    from q r have "user_turns_use (TextPart prompt_text) (req_contents r)"
      by (simp add: requests_use_def list_all_iff)
    with t ro have l: "length (parts t) = 2" and s: "parts t ! 1 = TextPart prompt_text"
      by (simp_all add: user_turns_use_def list_all_iff)
    from two_parts [OF l] s have "parts t = [parts t ! 0, TextPart prompt_text]"
      by simp
    with p show ?thesis by blast
  qed
  with n show ?thesis by blast
qed

theorem prompt_part_shared_witness:
  "length (requests (snd (script (stub_env (Inl (ServiceError ''quota''))) empty_world))) = 16
   \<and> (\<exists>r t. r \<in> set (requests (snd (script (stub_env (Inl (ServiceError ''quota''))) empty_world)))
        \<and> t \<in> set (req_contents r)
        \<and> role t = ''user''
        \<and> parts t ! 1
            = TextPart ''Perform the following task using step-by-step reasoning.Extract the records.'')"
proof -
  have p: "load_prompt (stub_env (Inl (ServiceError ''quota'')))
      = Inr ''Perform the following task using step-by-step reasoning.Extract the records.''"
    by (simp add: load_prompt_def stub_env_def)
  from prompt_part_shared [of "stub_env (Inl (ServiceError ''quota''))" empty_world]
  obtain new where
    n: "requests (snd (script (stub_env (Inl (ServiceError ''quota''))) empty_world))
        = requests empty_world @ new"
    and u: "\<forall>r \<in> set new. \<forall>t \<in> set (req_contents r).
          role t = ''user'' \<longrightarrow>
            (\<exists>image_part prompt_text.
               load_prompt (stub_env (Inl (ServiceError ''quota''))) = Inr prompt_text
               \<and> parts t = [image_part, TextPart prompt_text])"
    by blast
  have "requests empty_world = []" by (simp add: empty_world_def)
  with n have e: "requests (snd (script (stub_env (Inl (ServiceError ''quota''))) empty_world)) = new"
    by simp
  from stub_script_requests [of "Inl (ServiceError ''quota'')"]
  have l: "length (requests (snd (script (stub_env (Inl (ServiceError ''quota''))) empty_world))) = 16"
    by blast
  from stub_script_requests [of "Inl (ServiceError ''quota'')"] e
  obtain r t where r: "r \<in> set new" and t: "t \<in> set (req_contents r)" and ro: "role t = ''user''"
    by auto
  from u r t ro obtain image_part prompt_text where
    "load_prompt (stub_env (Inl (ServiceError ''quota''))) = Inr prompt_text"
    and "parts t = [image_part, TextPart prompt_text]"
    by blast
  with p have "parts t ! 1
      = TextPart ''Perform the following task using step-by-step reasoning.Extract the records.''"
    by simp
  with r t ro e l show ?thesis by blast
qed

end
